theory Spec2Isabelle
  imports Main "HOL-Library.AList"
begin

section \<open>JavaScript values used by static/app.js\<close>

text \<open>
  A per-line result as the evaluator's JSON carries it: a string, or \<open>null\<close>
  (\<open>None\<close>). A context maps variable names to the JSON text of their values; it is
  kept as an association list, in the order of the object's keys.
\<close>

type_synonym result = "string option"
type_synonym ctx = "(string \<times> string) list"

text \<open>Reading \<open>xs[i]\<close>: an index past the end reads \<open>undefined\<close> (\<open>None\<close>).\<close>

definition nth_opt :: "'a list \<Rightarrow> nat \<Rightarrow> 'a option" where
  "nth_opt xs i = (if i < length xs then Some (xs ! i) else None)"

text \<open>
  Reading \<open>results[i]\<close> from an array of results: \<open>undefined\<close> past the end and a
  stored \<open>null\<close> are both falsy, and both are \<open>None\<close> here.
\<close>

definition result_at :: "result list \<Rightarrow> nat \<Rightarrow> result" where
  "result_at rs i = (if i < length rs then rs ! i else None)"

text \<open>\<open>v || ""\<close> for \<open>v\<close> a string, \<open>null\<close> or \<open>undefined\<close>: the empty string is falsy too.\<close>

definition or_empty :: "result \<Rightarrow> string" where
  "or_empty v = (case v of None \<Rightarrow> [] | Some s \<Rightarrow> (if s = [] then [] else s))"

text \<open>\<open>v || []\<close> and \<open>v || {}\<close> for a value that is an array or object, or absent.\<close>

definition or_nil :: "'a list option \<Rightarrow> 'a list" where
  "or_nil v = (case v of None \<Rightarrow> [] | Some xs \<Rightarrow> xs)"

text \<open>\<open>s.split("\n")\<close>: always at least one piece; the empty string gives \<open>[""]\<close>.\<close>

fun split_lines :: "string \<Rightarrow> string list" where
  "split_lines [] = [[]]"
| "split_lines (c # cs) =
     (if c = CHR 0x0A then [] # split_lines cs
      else (case split_lines cs of
              [] \<Rightarrow> [[c]]
            | l # ls \<Rightarrow> (c # l) # ls))"

text \<open>\<open>s.includes(pat)\<close>: \<open>pat\<close> occurs in \<open>s\<close> as a contiguous substring.\<close>

fun includes_str :: "string \<Rightarrow> string \<Rightarrow> bool" where
  "includes_str [] pat = (pat = [])"
| "includes_str (c # cs) pat =
     (take (length pat) (c # cs) = pat \<or> includes_str cs pat)"

text \<open>
  \<open>s.trim()\<close>: strips white space and line terminators from both ends. Of
  JavaScript's white space, the code units that fit a \<open>char\<close> are TAB, LF, VT, FF,
  CR, SPACE and NBSP.
\<close>

definition is_space :: "char \<Rightarrow> bool" where
  "is_space c = (c \<in> set [CHR 0x09, CHR 0x0A, CHR 0x0B, CHR 0x0C, CHR 0x0D, CHR 0x20, CHR 0xA0])"

definition trim :: "string \<Rightarrow> string" where
  "trim s = rev (dropWhile is_space (rev (dropWhile is_space s)))"

text \<open>Decimal text of a number, as a template literal prints it.\<close>

definition digit_char :: "nat \<Rightarrow> char" where
  "digit_char d = char_of (48 + d)"

function show_nat :: "nat \<Rightarrow> string" where
  "show_nat n = (if n < 10 then [digit_char n] else show_nat (n div 10) @ [digit_char (n mod 10)])"
  by pat_completeness auto
termination
  by (relation "measure id") auto

declare show_nat.simps [simp del]

section \<open>The state of the page\<close>

text \<open>A page object, as \<open>createPage\<close> builds it.\<close>

record page =
  page_id :: nat
  page_name :: string
  page_content :: string
  page_results :: "result list option"
  page_context :: "ctx option"

text \<open>An entry of \<open>errorLogs\<close>.\<close>

record log_entry =
  log_timestamp :: string
  log_type :: string
  log_message :: string
  log_lineNo :: "nat option"

text \<open>The body posted to \<open>/api/evaluate\<close>, and the body posted to \<open>/api/log-error\<close>.\<close>

record eval_request =
  req_lines :: "string list"
  req_startIndex :: nat
  req_context :: "(string \<times> ctx) list"

record log_post =
  post_message :: string
  post_type :: string
  post_lineNo :: "nat option"

text \<open>
  The module's variables (\<open>previousLines\<close> \dots \<open>pageIdCounter\<close>), the parts of the
  document the engine reads and writes, and the browser's side of timers and network.
  \<open>overlay\<close> holds the text of the \<open>.overlay-result\<close> cell of each \<open>.overlay-row\<close>, in
  document order. \<open>timers\<close> are the callbacks armed by \<open>setTimeout\<close> and not yet run or
  cleared: the handle, and the \<open>lines\<close> and \<open>changedIndex\<close> the callback closes over.
  \<open>requests\<close> and \<open>logPosts\<close> record every body handed to \<open>fetch\<close>.
\<close>

record app_state =
  editorValue :: string
  overlay :: "string list"
  statusText :: string
  editorInfoText :: string
  previousLines :: "string list"
  latestResults :: "result list"
  debounceTimer :: "nat option"
  pages :: "page list"
  errorLogs :: "log_entry list"
  currentPageId :: "nat option"
  pageIdCounter :: nat
  timers :: "(nat \<times> string list \<times> nat) list"
  timerCounter :: nat
  requests :: "eval_request list"
  logPosts :: "log_post list"

section \<open>Rendering and projecting results\<close>

text \<open>
  \<open>renderLines(lines)\<close>: the overlay is rebuilt with one row per line; the result cell of
  row \<open>index\<close> shows \<open>latestResults[index] || ""\<close>.
\<close>

definition renderLines :: "string list \<Rightarrow> app_state \<Rightarrow> app_state" where
  "renderLines lines s =
     s\<lparr>overlay := map (\<lambda>index. or_empty (result_at (latestResults s) index)) [0..<length lines]\<rparr>"

text \<open>
  The loop of \<open>updateResultsFrom\<close>: \<open>for (i = startIndex; i < results.length; i += 1)\<close>,
  writing \<open>results[i] || ""\<close> into the cell of \<open>rows[i]\<close> when that row exists.
\<close>

function updateRows :: "nat \<Rightarrow> result list \<Rightarrow> string list \<Rightarrow> string list" where
  "updateRows i rs rows =
     (if i < length rs
      then updateRows (i + 1) rs
             (if i < length rows then rows[i := or_empty (result_at rs i)] else rows)
      else rows)"
  by pat_completeness auto
termination
  by (relation "measure (\<lambda>(i, rs, rows). length rs - i)") auto

declare updateRows.simps [simp del]

definition updateResultsFrom :: "nat \<Rightarrow> result list \<Rightarrow> app_state \<Rightarrow> app_state" where
  "updateResultsFrom startIndex rs s =
     s\<lparr>latestResults := rs, overlay := updateRows startIndex rs (overlay s)\<rparr>"

section \<open>Change detection\<close>

text \<open>
  The loop of \<open>getChangedLineIndex\<close>: \<open>lines[i] !== previousLines[i]\<close> compares a string
  with a string, or with \<open>undefined\<close> when one array has ended.
\<close>

function scanLines :: "nat \<Rightarrow> nat \<Rightarrow> string list \<Rightarrow> string list \<Rightarrow> int" where
  "scanLines i mx lines prev =
     (if i < mx
      then (if nth_opt lines i \<noteq> nth_opt prev i then int i
            else scanLines (i + 1) mx lines prev)
      else - 1)"
  by pat_completeness auto
termination
  by (relation "measure (\<lambda>(i, mx, lines, prev). mx - i)") auto

declare scanLines.simps [simp del]

definition getChangedLineIndex :: "string list \<Rightarrow> app_state \<Rightarrow> int" where
  "getChangedLineIndex lines s =
     scanLines 0 (max (length lines) (length (previousLines s))) lines (previousLines s)"

section \<open>The error log\<close>

text \<open>
  \<open>logError(message, type, lineNo)\<close>, up to its first \<open>await\<close>: the entry is pushed, one
  entry is shifted out when the array is then longer than 100, and the entry is posted to
  \<open>/api/log-error\<close>. \<open>now\<close> is what \<open>new Date().toISOString()\<close> reads. A failure of the
  post only reaches the console.
\<close>

definition logError :: "string \<Rightarrow> string \<Rightarrow> string \<Rightarrow> nat option \<Rightarrow> app_state \<Rightarrow> app_state" where
  "logError now message type lineNo s =
     (let error = \<lparr>log_timestamp = now, log_type = type, log_message = message,
                   log_lineNo = lineNo\<rparr>;
          pushed = errorLogs s @ [error];
          logs = (if length pushed > 100 then tl pushed else pushed)
      in s\<lparr>errorLogs := logs,
           logPosts := logPosts s @
             [\<lparr>post_message = message, post_type = type, post_lineNo = lineNo\<rparr>]\<rparr>)"



section \<open>Pages\<close>

text \<open>
  \<open>pages.find(pred)\<close> followed by assignments to the object found: the first page that
  satisfies \<open>pred\<close> is changed, in place.
\<close>

fun update_first :: "('a \<Rightarrow> bool) \<Rightarrow> ('a \<Rightarrow> 'a) \<Rightarrow> 'a list \<Rightarrow> 'a list" where
  "update_first P f [] = []"
| "update_first P f (x # xs) = (if P x then f x # xs else x # update_first P f xs)"



text \<open>\<open>createPage(name)\<close>: the new page is pushed, and returned to the caller.\<close>

definition createPage :: "string option \<Rightarrow> app_state \<Rightarrow> page \<times> app_state" where
  "createPage name s =
     (let i = pageIdCounter s;
          page = \<lparr>page_id = i,
                  page_name = (case name of
                                 None \<Rightarrow> ''Page'' @ show_nat (i + 1)
                               | Some n \<Rightarrow> (if n = [] then ''Page'' @ show_nat (i + 1) else n)),
                  page_content = [],
                  page_results = Some [],
                  page_context = Some []\<rparr>
      in (page, s\<lparr>pageIdCounter := i + 1, pages := pages s @ [page]\<rparr>))"

definition saveCurrentPage :: "app_state \<Rightarrow> app_state" where
  "saveCurrentPage s =
     s\<lparr>pages := update_first (\<lambda>p. Some (page_id p) = currentPageId s)
                  (\<lambda>p. p\<lparr>page_content := editorValue s,
                          page_results := Some (latestResults s)\<rparr>)
                  (pages s)\<rparr>"

text \<open>
  \<open>switchToPage(pageId)\<close>. \<open>renderTabs\<close> and \<open>renderVariables\<close> redraw the tab strip and
  the variable panel from \<open>pages\<close> and \<open>currentPageId\<close>; they write nothing that the
  engine reads back.
\<close>

definition switchToPage :: "nat \<Rightarrow> app_state \<Rightarrow> app_state" where
  "switchToPage pageId s =
     (let s1 = saveCurrentPage s;
          s2 = s1\<lparr>currentPageId := Some pageId\<rparr>
      in case find (\<lambda>p. page_id p = pageId) (pages s2) of
           None \<Rightarrow> s2
         | Some page \<Rightarrow>
             renderLines (split_lines (page_content page))
               (s2\<lparr>editorValue := page_content page,
                   previousLines := split_lines (page_content page),
                   latestResults := or_nil (page_results page)\<rparr>))"

text \<open>The click handler of \<open>addTabBtn\<close>.\<close>

definition addTab :: "app_state \<Rightarrow> app_state" where
  "addTab s = (case createPage None s of (page, s1) \<Rightarrow> switchToPage (page_id page) s1)"


text \<open>
  \<open>finish(apply)\<close> inside \<open>startRenameTab(page, \<dots>)\<close>, with \<open>inputValue\<close> the text of the
  rename input. \<open>page\<close> is the object of the tab that was double-clicked; page ids are
  never reused, so it is the page of \<open>pages\<close> with that id.
\<close>

definition finishRename :: "nat \<Rightarrow> string \<Rightarrow> bool \<Rightarrow> app_state \<Rightarrow> app_state" where
  "finishRename pageId inputValue apply s =
     (let v = trim inputValue
      in if apply \<and> v \<noteq> []
         then s\<lparr>pages := update_first (\<lambda>p. page_id p = pageId) (\<lambda>p. p\<lparr>page_name := v\<rparr>) (pages s)\<rparr>
         else s)"


section \<open>Evaluation rounds\<close>

text \<open>
  The own properties of a plain object, in the order in which \<open>JSON.stringify\<close> and
  \<open>Object.keys\<close> list them: first the keys that are array indices (the decimal text,
  without leading zeros, of a number below \<open>2^32 - 1 = 4294967295\<close>) in ascending numeric
  order, then the other keys in the order in which they were first assigned. Two decimal
  texts without leading zeros compare as their numbers do when they are compared by
  length first and digit by digit second.
\<close>

definition is_digit :: "char \<Rightarrow> bool" where
  "is_digit c = (48 \<le> (of_char c :: nat) \<and> (of_char c :: nat) \<le> 57)"

fun lex_less :: "string \<Rightarrow> string \<Rightarrow> bool" where
  "lex_less (a # as) (b # bs) =
     ((of_char a :: nat) < of_char b \<or> (a = b \<and> lex_less as bs))"
| "lex_less _ _ = False"

definition digits_less :: "string \<Rightarrow> string \<Rightarrow> bool" where
  "digits_less a b = (length a < length b \<or> (length a = length b \<and> lex_less a b))"

definition is_array_index :: "string \<Rightarrow> bool" where
  "is_array_index k =
     (k \<noteq> [] \<and> list_all is_digit k \<and> (k = ''0'' \<or> hd k \<noteq> CHR ''0'') \<and>
      digits_less k ''4294967295'')"

definition index_below :: "string \<Rightarrow> string \<times> 'v \<Rightarrow> bool" where
  "index_below k kv = (is_array_index (fst kv) \<and> digits_less (fst kv) k)"

text \<open>
  \<open>obj[k] = v\<close> on a plain object. A key that is already there keeps its place and has
  its value overwritten. The key \<open>__proto__\<close> is the accessor inherited from
  \<open>Object.prototype\<close>: assigning an object to it replaces the prototype and adds no own
  property, so nothing of it reaches \<open>JSON.stringify\<close>.
\<close>

definition obj_assign :: "string \<Rightarrow> 'v \<Rightarrow> (string \<times> 'v) list \<Rightarrow> (string \<times> 'v) list" where
  "obj_assign k v obj =
     (if k = ''__proto__'' then obj
      else if map_of obj k \<noteq> None then AList.update k v obj
      else if is_array_index k
      then takeWhile (index_below k) obj @ [(k, v)] @ dropWhile (index_below k) obj
      else obj @ [(k, v)])"

text \<open>
  The snapshot \<open>allPagesContext\<close> built at the start of \<open>evaluateLines\<close>. The test
  \<open>page.results\<close> is a truthiness test: it holds for every array, the empty one included,
  and fails only for a page whose \<open>results\<close> is absent.
\<close>

definition allPagesContext :: "app_state \<Rightarrow> (string \<times> ctx) list" where
  "allPagesContext s =
     foldl (\<lambda>acc page.
              if Some (page_id page) \<noteq> currentPageId s \<and> page_results page \<noteq> None
              then obj_assign (page_name page) (or_nil (page_context page)) acc
              else acc)
       [] (pages s)"

text \<open>
  \<open>evaluateLines(lines, startIndex)\<close> up to \<open>await fetch(\<dots>)\<close>: the indicators are set, the
  snapshot is taken and the request leaves.
\<close>

definition evaluateLines_start :: "string list \<Rightarrow> nat \<Rightarrow> app_state \<Rightarrow> app_state" where
  "evaluateLines_start lines startIndex s =
     s\<lparr>statusText := ''Evaluating...'',
       editorInfoText := ''Evaluating...'',
       requests := requests s @
         [\<lparr>req_lines = lines, req_startIndex = startIndex, req_context = allPagesContext s\<rparr>]\<rparr>"

text \<open>
  What the two awaits deliver. \<open>fetch\<close> rejects with an error message (no response); or a
  response arrives, with its \<open>ok\<close> flag, and \<open>response.json()\<close> either rejects with an error
  message (the body is not JSON) or yields \<open>data\<close>. Of \<open>data\<close> the code reads the properties
  \<open>results\<close>, \<open>context\<close> and \<open>error\<close>, each of which may be absent; \<open>JNull\<close> is the JSON
  \<open>null\<close>, of which no property can be read. A JSON number, string, boolean or array has
  none of the three properties and is \<open>JObject None None None\<close>.
\<close>

datatype json_body =
    JNull
  | JObject (data_results: "result list option") (data_context: "ctx option")
      (data_error: "string option")

datatype fetch_outcome =
    FetchRejected string
  | JsonRejected bool string
  | Response bool json_body

text \<open>The statements of the \<open>catch\<close> block, for an error with message \<open>msg\<close>.\<close>

definition evaluateLines_catch :: "string \<Rightarrow> string \<Rightarrow> app_state \<Rightarrow> app_state" where
  "evaluateLines_catch now msg s =
     logError now (''Network error: '' @ msg) ''network'' None
       (s\<lparr>statusText := ''Evaluation failed'', editorInfoText := ''Failed''\<rparr>)"

text \<open>
  \<open>data.results.forEach\<close> on success: a result that is truthy and includes \<open>"Error:"\<close> is
  logged with line number \<open>idx + startIndex + 1\<close>. \<open>now idx\<close> is the clock reading when the
  result at \<open>idx\<close> is logged.
\<close>

fun logResultErrors :: "(nat \<Rightarrow> string) \<Rightarrow> nat \<Rightarrow> nat \<Rightarrow> result list \<Rightarrow> app_state \<Rightarrow> app_state" where
  "logResultErrors now startIndex idx [] s = s"
| "logResultErrors now startIndex idx (r # rs) s =
     logResultErrors now startIndex (idx + 1) rs
       (case r of
          None \<Rightarrow> s
        | Some t \<Rightarrow>
            (if t \<noteq> [] \<and> includes_str t ''Error:''
             then logError (now idx) t ''evaluation'' (Some (idx + startIndex + 1)) s
             else s))"

text \<open>
  \<open>evaluateLines(lines, startIndex)\<close> from the awaits on, run on the state as it is when
  the response arrives. \<open>typeError\<close> is the message of the \<open>TypeError\<close> the engine throws
  when a property of \<open>null\<close> or \<open>undefined\<close> is read; like every other exception of the
  \<open>try\<close> block it ends in the \<open>catch\<close> block.
\<close>

definition evaluateLines_resume ::
  "(nat \<Rightarrow> string) \<Rightarrow> string \<Rightarrow> string list \<Rightarrow> nat \<Rightarrow> fetch_outcome \<Rightarrow> app_state \<Rightarrow> app_state" where
  "evaluateLines_resume now typeError lines startIndex outcome s =
     (case outcome of
        FetchRejected msg \<Rightarrow> evaluateLines_catch (now 0) msg s
      | JsonRejected ok msg \<Rightarrow> evaluateLines_catch (now 0) msg s
      | Response ok JNull \<Rightarrow> evaluateLines_catch (now 0) typeError s
      | Response ok (JObject results context error) \<Rightarrow>
          (if ok
           then (let s1 = updateResultsFrom startIndex (or_nil results) s;
                     s2 = s1\<lparr>pages := update_first (\<lambda>p. Some (page_id p) = currentPageId s1)
                                         (\<lambda>p. p\<lparr>page_context := Some (or_nil context)\<rparr>)
                                         (pages s1)\<rparr>;
                     s3 = s2\<lparr>statusText := ''Ready'',
                             editorInfoText := show_nat (length lines) @ '' lines''\<rparr>
                 in case results of
                      None \<Rightarrow> evaluateLines_catch (now 0) typeError s3
                    | Some rs \<Rightarrow> logResultErrors now startIndex 0 rs s3)
           else (let errorMsg = (case error of
                                   None \<Rightarrow> ''Evaluation failed''
                                 | Some e \<Rightarrow> (if e = [] then ''Evaluation failed'' else e))
                 in logError (now 0) errorMsg ''api'' None
                      (s\<lparr>statusText := errorMsg, editorInfoText := ''Error''\<rparr>))))"

section \<open>Scheduling\<close>

text \<open>
  \<open>clearTimeout(handle)\<close> drops the armed callback with that handle, if any;
  \<open>setTimeout\<close> arms a callback under a fresh handle.
\<close>

definition clearTimeout :: "nat option \<Rightarrow> app_state \<Rightarrow> app_state" where
  "clearTimeout handle s =
     (case handle of
        None \<Rightarrow> s
      | Some h \<Rightarrow> s\<lparr>timers := filter (\<lambda>t. fst t \<noteq> h) (timers s)\<rparr>)"

definition setTimeout :: "string list \<Rightarrow> nat \<Rightarrow> app_state \<Rightarrow> nat \<times> app_state" where
  "setTimeout lines changedIndex s =
     (let h = timerCounter s + 1
      in (h, s\<lparr>timerCounter := h, timers := timers s @ [(h, lines, changedIndex)]\<rparr>))"

definition scheduleEvaluation :: "app_state \<Rightarrow> app_state" where
  "scheduleEvaluation s =
     (let lines = split_lines (editorValue s);
          changedIndex = getChangedLineIndex lines s
      in if changedIndex = - 1 then s
         else (let s1 = renderLines lines (s\<lparr>previousLines := lines\<rparr>);
                   s2 = clearTimeout (debounceTimer s1) s1
               in case setTimeout lines (nat changedIndex) s2 of
                    (h, s3) \<Rightarrow> s3\<lparr>debounceTimer := Some h\<rparr>))"

text \<open>An \<open>input\<close> event of the editor: its value is now \<open>v\<close>.\<close>

definition editorInput :: "string \<Rightarrow> app_state \<Rightarrow> app_state" where
  "editorInput v s = scheduleEvaluation (s\<lparr>editorValue := v\<rparr>)"


text \<open>The click handler of \<open>runBtn\<close>.\<close>

definition runAll :: "app_state \<Rightarrow> app_state" where
  "runAll s = evaluateLines_start (split_lines (editorValue s)) 0 s"

section \<open>Start-up and the reachable states\<close>

text \<open>The module's variables as initialised, with \<open>v\<close> the text the editor holds on load.\<close>

definition initial :: "string \<Rightarrow> app_state" where
  "initial v =
     \<lparr>editorValue = v, overlay = [], statusText = [], editorInfoText = [],
      previousLines = [], latestResults = [], debounceTimer = None, pages = [],
      errorLogs = [], currentPageId = None, pageIdCounter = 0, timers = [],
      timerCounter = 0, requests = [], logPosts = []\<rparr>"

definition bootstrap :: "string \<Rightarrow> app_state" where
  "bootstrap v =
     (case createPage (Some ''Main'') (initial v) of
        (initialPage, s1) \<Rightarrow>
          (let s2 = s1\<lparr>currentPageId := Some (page_id initialPage),
                       pages := update_first (\<lambda>p. page_id p = page_id initialPage)
                                  (\<lambda>p. p\<lparr>page_content := editorValue s1\<rparr>) (pages s1),
                       previousLines := split_lines (editorValue s1)\<rparr>;
               s3 = renderLines (previousLines s2) s2
           in evaluateLines_start (previousLines s3) 0 s3))"


section \<open>Concrete states\<close>

text \<open>
  A document of three lines whose result cells show \<open>1\<close>, \<open>2\<close> and \<open>3\<close>, with the first
  two lines committed as \<open>a\<close> and \<open>b\<close>.
\<close>

definition three_rows :: app_state where
  "three_rows = (initial [])\<lparr>previousLines := [''a'', ''b''], overlay := [''1'', ''2'', ''3'']\<rparr>"

text \<open>An error log that holds 100 entries.\<close>

definition full_log :: app_state where
  "full_log =
     (initial [])\<lparr>errorLogs := replicate 100
        \<lparr>log_timestamp = ''t0'', log_type = ''client'', log_message = ''old'',
         log_lineNo = None\<rparr>\<rparr>"

text \<open>
  After start-up on \<open>x = 1\<close>, a second page is added (and becomes active) and \<open>y = 2\<close>
  is typed into it.
\<close>

definition two_pages :: app_state where
  "two_pages = editorInput ''y = 2'' (addTab (bootstrap ''x = 1''))"

text \<open>The page right after start-up on \<open>x = 1\<close>, its first request still in flight.\<close>

definition one_page :: app_state where
  "one_page = bootstrap ''x = 1''"

text \<open>A clock that always reads the same instant.\<close>

definition fixed_clock :: "nat \<Rightarrow> string" where
  "fixed_clock k = ''2026-01-01T00:00:00.000Z''"

text \<open>
  Start-up on \<open>x = 1\<close>; the first round completes with results \<open>[""]\<close> and context
  \<open>{x: 1}\<close>; a second page is added; the tab of \<open>Main\<close> is clicked. No round has been
  started while \<open>Page2\<close> was active.
\<close>

definition never_evaluated :: app_state where
  "never_evaluated =
     switchToPage 0 (addTab
       (evaluateLines_resume fixed_clock [] [''x = 1''] 0
          (Response True (JObject (Some [Some []]) (Some [(''x'', ''1'')]) None))
          (bootstrap ''x = 1'')))"

section \<open>The result projector\<close>

lemma length_updateRows: "length (updateRows i rs rows) = length rows"
proof (induction i rs rows rule: updateRows.induct)
  case (1 i rs rows)
  show ?case
  proof (cases "i < length rs")
    case True
    with "1" show ?thesis by (subst updateRows.simps) simp
  next
    case False
    then show ?thesis by (subst updateRows.simps) simp
  qed
qed

lemma nth_updateRows:
  "n < length rows \<Longrightarrow>
   updateRows i rs rows ! n =
     (if i \<le> n \<and> n < length rs then or_empty (rs ! n) else rows ! n)"
proof (induction i rs rows rule: updateRows.induct)
  case (1 i rs rows)
  show ?case
  proof (cases "i < length rs")
    case True
    let ?rows = "if i < length rows then rows[i := or_empty (result_at rs i)] else rows"
    have len: "n < length ?rows" using "1.prems" by simp
    have step: "updateRows i rs rows = updateRows (i + 1) rs ?rows"
      using True by (subst updateRows.simps) simp
    have ih: "updateRows (i + 1) rs ?rows ! n =
        (if i + 1 \<le> n \<and> n < length rs then or_empty (rs ! n) else ?rows ! n)"
      using "1.IH" [OF True len] .
    show ?thesis
    proof (cases "n = i")
      case True
      with ih step \<open>i < length rs\<close> "1.prems" show ?thesis
        by (simp add: result_at_def)
    next
      case False
      with ih step "1.prems" show ?thesis by (auto simp: nth_list_update)
    qed
  next
    case False
    then show ?thesis by (subst updateRows.simps) auto
  qed
qed

text \<open>
  C1, as the code has it. \<open>updateResultsFrom(k, R)\<close> reads \<open>R\<close> by document line: for
  every \<open>i\<close> with \<open>k \<le> i < |R|\<close> for which a row exists, the result cell of document line
  \<open>i\<close> is set to \<open>R[i]\<close>, or to the empty string when \<open>R[i]\<close> is falsy. The number of rows
  does not change, and \<open>latestResults\<close> becomes \<open>R\<close>.
\<close>

theorem updateResultsFrom_absolute_index:
  "length (overlay (updateResultsFrom k R s)) = length (overlay s) \<and>
   latestResults (updateResultsFrom k R s) = R \<and>
   (\<forall>i. k \<le> i \<and> i < length R \<and> i < length (overlay s) \<longrightarrow>
        overlay (updateResultsFrom k R s) ! i = or_empty (R ! i))"
  by (simp add: updateResultsFrom_def length_updateRows nth_updateRows)

theorem updateResultsFrom_absolute_index_witness:
  "(1::nat) \<le> 1 \<and> (1::nat) < length [Some ''20'', Some ''30''] \<and>
   (1::nat) < length (overlay three_rows) \<and>
   overlay (updateResultsFrom 1 [Some ''20'', Some ''30''] three_rows) ! 1 = ''30''"
  using updateResultsFrom_absolute_index [of 1 "[Some ''20'', Some ''30'']" three_rows]
  by (simp add: three_rows_def initial_def or_empty_def)

text \<open>
  C1 as the specification states it fails: with \<open>k = 1\<close> and \<open>R = ["20", "30"]\<close> over three
  rows, the cell of line \<open>1\<close> receives \<open>R[1]\<close>, not \<open>R[0]\<close>, and the cell of line \<open>2\<close> is
  not written.
\<close>

theorem updateResultsFrom_offset_counterexample:
  "overlay (updateResultsFrom 1 [Some ''20'', Some ''30''] three_rows) = [''1'', ''30'', ''3''] \<and>
   overlay (updateResultsFrom 1 [Some ''20'', Some ''30''] three_rows) ! (1 + 0)
     \<noteq> or_empty ([Some ''20'', Some ''30''] ! 0) \<and>
   overlay (updateResultsFrom 1 [Some ''20'', Some ''30''] three_rows) ! (1 + 1)
     \<noteq> or_empty ([Some ''20'', Some ''30''] ! 1)"
  by (simp add: updateResultsFrom_def three_rows_def initial_def updateRows.simps
      result_at_def or_empty_def)

text \<open>
  C3. Applying any results array with \<open>startIndex = k\<close> leaves the result cell of every
  line \<open>i < k\<close> as it was, whatever it showed (and a line without a row stays without one).
\<close>

theorem updateResultsFrom_frame:
  "i < k \<Longrightarrow>
     nth_opt (overlay (updateResultsFrom k R s)) i = nth_opt (overlay s) i"
  by (simp add: updateResultsFrom_def nth_opt_def length_updateRows nth_updateRows)

theorem updateResultsFrom_frame_witness:
  "(0::nat) < 1 \<and>
   nth_opt (overlay (updateResultsFrom 1 [Some ''20'', Some ''30''] three_rows)) 0 = Some ''1''"
  using updateResultsFrom_frame [of 0 1 "[Some ''20'', Some ''30'']" three_rows]
  by (simp add: three_rows_def initial_def nth_opt_def)

section \<open>The change detector and the scheduler\<close>

lemma scanLines_minus_one:
  "scanLines i mx lines prev = - 1 \<longleftrightarrow>
     (\<forall>j. i \<le> j \<and> j < mx \<longrightarrow> nth_opt lines j = nth_opt prev j)"
proof (induction i mx lines prev rule: scanLines.induct)
  case (1 i mx lines prev)
  show ?case
  proof (cases "i < mx")
    case False
    then show ?thesis by (subst scanLines.simps) auto
  next
    case True
    show ?thesis
    proof (cases "nth_opt lines i \<noteq> nth_opt prev i")
      case True
      with \<open>i < mx\<close> show ?thesis by (subst scanLines.simps) auto
    next
      case False
      have "scanLines i mx lines prev = scanLines (i + 1) mx lines prev"
        using False \<open>i < mx\<close> by (subst scanLines.simps) simp
      moreover have "(\<forall>j. i \<le> j \<and> j < mx \<longrightarrow> nth_opt lines j = nth_opt prev j) \<longleftrightarrow>
          (\<forall>j. i + 1 \<le> j \<and> j < mx \<longrightarrow> nth_opt lines j = nth_opt prev j)"
        using False by (metis Suc_eq_plus1 Suc_leI le_neq_implies_less le_add1 le_trans)
      ultimately show ?thesis using "1.IH" [OF \<open>i < mx\<close> False] by simp
    qed
  qed
qed

lemma scanLines_first:
  "scanLines i mx lines prev \<noteq> - 1 \<Longrightarrow>
     \<exists>k. scanLines i mx lines prev = int k \<and> i \<le> k \<and> k < mx \<and>
         nth_opt lines k \<noteq> nth_opt prev k \<and>
         (\<forall>j. i \<le> j \<and> j < k \<longrightarrow> nth_opt lines j = nth_opt prev j)"
proof (induction i mx lines prev rule: scanLines.induct)
  case (1 i mx lines prev)
  show ?case
  proof (cases "i < mx")
    case False
    with "1.prems" show ?thesis by (subst (asm) scanLines.simps) simp
  next
    case True
    show ?thesis
    proof (cases "nth_opt lines i \<noteq> nth_opt prev i")
      case True
      with \<open>i < mx\<close> have "scanLines i mx lines prev = int i"
        by (subst scanLines.simps) simp
      with True \<open>i < mx\<close> show ?thesis by auto
    next
      case False
      have eq: "scanLines i mx lines prev = scanLines (i + 1) mx lines prev"
        using False \<open>i < mx\<close> by (subst scanLines.simps) simp
      with "1.prems" have "scanLines (i + 1) mx lines prev \<noteq> - 1" by simp
      from "1.IH" [OF \<open>i < mx\<close> False this] obtain k where
        k: "scanLines (i + 1) mx lines prev = int k" "i + 1 \<le> k" "k < mx"
           "nth_opt lines k \<noteq> nth_opt prev k"
           "\<forall>j. i + 1 \<le> j \<and> j < k \<longrightarrow> nth_opt lines j = nth_opt prev j"
        by blast
      have "\<forall>j. i \<le> j \<and> j < k \<longrightarrow> nth_opt lines j = nth_opt prev j"
      proof (intro allI impI)
        fix j assume "i \<le> j \<and> j < k"
        then show "nth_opt lines j = nth_opt prev j"
          using False k(5) by (cases "j = i") auto
      qed
      with k eq show ?thesis by (intro exI [of _ k]) simp
    qed
  qed
qed

lemma nth_opt_eq_iff:
  "xs = ys \<longleftrightarrow> (\<forall>j. j < max (length xs) (length ys) \<longrightarrow> nth_opt xs j = nth_opt ys j)"
proof
  assume "xs = ys" then show "\<forall>j. j < max (length xs) (length ys) \<longrightarrow> nth_opt xs j = nth_opt ys j" by simp
next
  assume h: "\<forall>j. j < max (length xs) (length ys) \<longrightarrow> nth_opt xs j = nth_opt ys j"
  have len: "length xs = length ys"
  proof (rule ccontr)
    assume "length xs \<noteq> length ys"
    then consider "length xs < length ys" | "length ys < length xs" by linarith
    then show False
    proof cases
      case 1
      with h have "nth_opt xs (length xs) = nth_opt ys (length xs)" by simp
      with 1 show False by (simp add: nth_opt_def)
    next
      case 2
      with h have "nth_opt xs (length ys) = nth_opt ys (length ys)" by simp
      with 2 show False by (simp add: nth_opt_def)
    qed
  qed
  show "xs = ys"
  proof (rule nth_equalityI [OF len])
    fix i assume "i < length xs"
    with h len have "nth_opt xs i = nth_opt ys i" by simp
    with \<open>i < length xs\<close> len show "xs ! i = ys ! i" by (simp add: nth_opt_def)
  qed
qed

lemma getChangedLineIndex_none:
  "getChangedLineIndex C s = - 1 \<longleftrightarrow> C = previousLines s"
  unfolding getChangedLineIndex_def
  by (simp only: scanLines_minus_one nth_opt_eq_iff [of C "previousLines s"]) simp

lemma getChangedLineIndex_first:
  assumes "C \<noteq> previousLines s"
  shows "\<exists>i. getChangedLineIndex C s = int i \<and>
             i < max (length C) (length (previousLines s)) \<and>
             nth_opt C i \<noteq> nth_opt (previousLines s) i \<and>
             (\<forall>j<i. nth_opt C j = nth_opt (previousLines s) j)"
proof -
  from assms have "scanLines 0 (max (length C) (length (previousLines s))) C (previousLines s) \<noteq> - 1"
    using getChangedLineIndex_none [of C s] by (simp add: getChangedLineIndex_def)
  from scanLines_first [OF this] show ?thesis
    unfolding getChangedLineIndex_def by auto
qed

text \<open>
  C2. \<open>getChangedLineIndex\<close> returns \<open>-1\<close> exactly when the current lines equal the
  previous lines; otherwise it returns the least index at which the two arrays differ,
  an index that only one of them has counting as a difference.
\<close>

theorem getChangedLineIndex_correct:
  "(getChangedLineIndex C s = - 1 \<longleftrightarrow> C = previousLines s) \<and>
   (C \<noteq> previousLines s \<longrightarrow>
      (\<exists>i. getChangedLineIndex C s = int i \<and>
           i < max (length C) (length (previousLines s)) \<and>
           nth_opt C i \<noteq> nth_opt (previousLines s) i \<and>
           (\<forall>j<i. nth_opt C j = nth_opt (previousLines s) j)))"
  using getChangedLineIndex_none [of C s] getChangedLineIndex_first [of C s] by blast

theorem getChangedLineIndex_correct_witness:
  "[''a'', ''c''] \<noteq> previousLines three_rows \<and>
   getChangedLineIndex [''a'', ''c''] three_rows \<noteq> - 1"
  using getChangedLineIndex_correct [of "[''a'', ''c'']" three_rows]
  by (simp add: three_rows_def initial_def)

text \<open>
  C5. When the editor's lines equal \<open>previousLines\<close>, \<open>scheduleEvaluation\<close> returns the
  state it was given: no timer is armed or cleared, no request is sent, and
  \<open>previousLines\<close>, \<open>latestResults\<close> and the pages are as before.
\<close>

theorem scheduleEvaluation_noop:
  "split_lines (editorValue s) = previousLines s \<Longrightarrow> scheduleEvaluation s = s"
proof -
  assume eq: "split_lines (editorValue s) = previousLines s"
  have "getChangedLineIndex (split_lines (editorValue s)) s = - 1"
    using getChangedLineIndex_none [of "split_lines (editorValue s)" s] eq by simp
  then show ?thesis by (simp add: scheduleEvaluation_def)
qed

theorem scheduleEvaluation_noop_witness:
  "split_lines (editorValue two_pages) = previousLines two_pages \<and>
   scheduleEvaluation two_pages = two_pages"
proof -
  have h: "split_lines (editorValue two_pages) = previousLines two_pages"
    by code_simp
  from h scheduleEvaluation_noop [OF h] show ?thesis by simp
qed

section \<open>The error log is capped\<close>

text \<open>
  C7. \<open>logError\<close> puts the new entry last; when the log already holds 100 entries (or
  more) the oldest one is dropped. Appending to a log of exactly 100 entries leaves 100,
  and a log within the cap stays within it.
\<close>

theorem logError_ring_buffer:
  "errorLogs (logError now message type lineNo s) =
     (if length (errorLogs s) < 100 then errorLogs s else tl (errorLogs s)) @
       [\<lparr>log_timestamp = now, log_type = type, log_message = message, log_lineNo = lineNo\<rparr>]
   \<and> (length (errorLogs s) = 100 \<longrightarrow> length (errorLogs (logError now message type lineNo s)) = 100)
   \<and> (length (errorLogs s) \<le> 100 \<longrightarrow> length (errorLogs (logError now message type lineNo s)) \<le> 100)"
  by (cases "errorLogs s") (auto simp: logError_def Let_def)

theorem logError_ring_buffer_witness:
  "length (errorLogs full_log) = 100 \<and>
   length (errorLogs (logError ''t1'' ''boom'' ''api'' None full_log)) = 100 \<and>
   log_message (last (errorLogs (logError ''t1'' ''boom'' ''api'' None full_log))) = ''boom''"
  using logError_ring_buffer [of "''t1''" "''boom''" "''api''" None full_log]
  by (simp add: full_log_def initial_def)

section \<open>Pages\<close>

lemma find_update_first_same:
  "find P xs = Some x \<Longrightarrow> (\<And>y. P (f y) = P y) \<Longrightarrow> find P (update_first P f xs) = Some (f x)"
  by (induction xs) (auto split: if_splits)

lemma find_update_first_other:
  "(\<And>y. Q (f y) = Q y) \<Longrightarrow> (\<And>y. Q y \<Longrightarrow> \<not> P y) \<Longrightarrow> find Q (update_first P f xs) = find Q xs"
  by (induction xs) (auto split: if_splits)



text \<open>
  C8. Switching from the active page \<open>A\<close> to a page \<open>B\<close>: the editor's text and
  \<open>latestResults\<close> are stored into \<open>A\<close>'s record while \<open>A\<close> is still the active page, so
  the record of another page \<open>B\<close> is not written; then \<open>B\<close> is the active page, and the
  editor, \<open>previousLines\<close>, \<open>latestResults\<close> and the overlay hold what \<open>B\<close>'s record
  stores (when \<open>B\<close> is \<open>A\<close> itself, what was just stored).
\<close>

theorem switchToPage_saves_then_loads:
  assumes "currentPageId s = Some a"
    and "find (\<lambda>p. page_id p = a) (pages s) = Some A"
    and "find (\<lambda>p. page_id p = b) (pages s) = Some B"
  shows "(let A' = A\<lparr>page_content := editorValue s, page_results := Some (latestResults s)\<rparr>;
              B' = (if b = a then A' else B);
              s' = switchToPage b s
          in find (\<lambda>p. page_id p = a) (pages s') = Some A' \<and>
             find (\<lambda>p. page_id p = b) (pages s') = Some B' \<and>
             currentPageId s' = Some b \<and>
             editorValue s' = page_content B' \<and>
             previousLines s' = split_lines (page_content B') \<and>
             latestResults s' = or_nil (page_results B') \<and>
             overlay s' =
               map (\<lambda>i. or_empty (result_at (or_nil (page_results B')) i))
                 [0..<length (split_lines (page_content B'))])"
proof -
  let ?f = "\<lambda>p. p\<lparr>page_content := editorValue s, page_results := Some (latestResults s)\<rparr>"
  have pa: "(\<lambda>p. Some (page_id p) = currentPageId s) = (\<lambda>p. page_id p = a)"
    using assms(1) by auto
  have savedA: "find (\<lambda>p. page_id p = a) (pages (saveCurrentPage s)) = Some (?f A)"
    unfolding saveCurrentPage_def pa using assms(2)
    by (simp add: find_update_first_same)
  have savedB: "find (\<lambda>p. page_id p = b) (pages (saveCurrentPage s)) = Some B" if "b \<noteq> a"
  proof -
    have "find (\<lambda>p. page_id p = b) (update_first (\<lambda>p. page_id p = a) ?f (pages s)) =
        find (\<lambda>p. page_id p = b) (pages s)"
      by (rule find_update_first_other) (use that in simp_all)
    with assms(3) show ?thesis unfolding saveCurrentPage_def pa by simp
  qed
  show ?thesis
  proof (cases "b = a")
    case True
    with savedA show ?thesis
      by (simp add: switchToPage_def Let_def renderLines_def)
  next
    case False
    with savedA savedB [OF False] show ?thesis
      by (simp add: switchToPage_def Let_def renderLines_def)
  qed
qed

theorem switchToPage_saves_then_loads_witness:
  "currentPageId two_pages = Some 1 \<and>
   find (\<lambda>p. page_id p = 1) (pages two_pages) =
     Some \<lparr>page_id = 1, page_name = ''Page2'', page_content = [], page_results = Some [],
           page_context = Some []\<rparr> \<and>
   find (\<lambda>p. page_id p = 0) (pages two_pages) =
     Some \<lparr>page_id = 0, page_name = ''Main'', page_content = ''x = 1'', page_results = Some [],
           page_context = Some []\<rparr> \<and>
   find (\<lambda>p. page_id p = 1) (pages (switchToPage 0 two_pages)) =
     Some \<lparr>page_id = 1, page_name = ''Page2'', page_content = ''y = 2'', page_results = Some [],
           page_context = Some []\<rparr> \<and>
   currentPageId (switchToPage 0 two_pages) = Some 0 \<and>
   editorValue (switchToPage 0 two_pages) = ''x = 1''"
proof -
  have c: "currentPageId two_pages = Some 1" by code_simp
  have a: "find (\<lambda>p. page_id p = 1) (pages two_pages) =
     Some \<lparr>page_id = 1, page_name = ''Page2'', page_content = [], page_results = Some [],
           page_context = Some []\<rparr>" by code_simp
  have b: "find (\<lambda>p. page_id p = 0) (pages two_pages) =
     Some \<lparr>page_id = 0, page_name = ''Main'', page_content = ''x = 1'', page_results = Some [],
           page_context = Some []\<rparr>" by code_simp
  have e: "editorValue two_pages = ''y = 2''" by code_simp
  have l: "latestResults two_pages = []" by code_simp
  from switchToPage_saves_then_loads [OF c a b] c a b e l show ?thesis by (simp add: Let_def)
qed

text \<open>
  C10. A rename committed (blur or Enter) with an input that trims to the empty string
  changes nothing; committed with any other input it sets the page's name to the trimmed
  input; cancelled with Escape it changes nothing.
\<close>

theorem finishRename_name:
  "find (\<lambda>q. page_id q = pid) (pages s) = Some p \<Longrightarrow>
     (trim v = [] \<longrightarrow> finishRename pid v True s = s) \<and>
     (trim v \<noteq> [] \<longrightarrow>
        find (\<lambda>q. page_id q = pid) (pages (finishRename pid v True s)) = Some (p\<lparr>page_name := trim v\<rparr>)) \<and>
     finishRename pid v False s = s"
  by (simp add: finishRename_def Let_def find_update_first_same)

theorem finishRename_name_witness:
  "find (\<lambda>q. page_id q = 1) (pages two_pages) =
     Some \<lparr>page_id = 1, page_name = ''Page2'', page_content = [], page_results = Some [],
           page_context = Some []\<rparr> \<and>
   trim ''   '' = [] \<and> finishRename 1 ''   '' True two_pages = two_pages \<and>
   trim '' Tax '' \<noteq> [] \<and>
   map page_name (pages (finishRename 1 '' Tax '' True two_pages)) = [''Main'', ''Tax''] \<and>
   finishRename 1 '' Tax '' False two_pages = two_pages"
proof -
  have h: "find (\<lambda>q. page_id q = 1) (pages two_pages) =
     Some \<lparr>page_id = 1, page_name = ''Page2'', page_content = [], page_results = Some [],
           page_context = Some []\<rparr>"
    by code_simp
  have t1: "trim ''   '' = []" by code_simp
  have t2: "trim '' Tax '' = ''Tax''" by code_simp
  have n: "map page_name (pages (finishRename 1 '' Tax '' True two_pages)) = [''Main'', ''Tax'']"
    by code_simp
  from finishRename_name [OF h, of "''   ''"] finishRename_name [OF h, of "'' Tax ''"] h t1 t2 n
  show ?thesis by simp
qed

section \<open>The page list in reachable states\<close>


lemma logError_keeps:
  "pages (logError now m t l s) = pages s"
  "pageIdCounter (logError now m t l s) = pageIdCounter s"
  "currentPageId (logError now m t l s) = currentPageId s"
  "overlay (logError now m t l s) = overlay s"
  "latestResults (logError now m t l s) = latestResults s"
  "statusText (logError now m t l s) = statusText s"
  by (simp_all add: logError_def Let_def)



























section \<open>Failed rounds and the cross-page snapshot\<close>

text \<open>
  The two failure branches of \<open>evaluateLines\<close>. In the \<open>else\<close> branch (the response is
  not \<open>ok\<close> and \<open>data\<close> is not \<open>null\<close>) the overlay, \<open>latestResults\<close> and the pages are
  unchanged, the status shows the server's \<open>error\<close> text, or \<open>Evaluation failed\<close> when that
  is absent or empty, and one entry tagged \<open>api\<close> is put last in the error log. When
  \<open>fetch\<close> rejects, the same things are unchanged, the status shows \<open>Evaluation failed\<close>
  and one entry tagged \<open>network\<close> with the text \<open>Network error: \<close> followed by the error's
  message is put last.
\<close>

lemma evaluateLines_resume_failures:
  "(let s' = evaluateLines_resume now typeError lines k (Response False (JObject r c e)) s;
        msg = (case e of None \<Rightarrow> ''Evaluation failed''
               | Some t \<Rightarrow> (if t = [] then ''Evaluation failed'' else t))
    in overlay s' = overlay s \<and> latestResults s' = latestResults s \<and> pages s' = pages s \<and>
       statusText s' = msg \<and>
       errorLogs s' =
         (if length (errorLogs s) < 100 then errorLogs s else tl (errorLogs s)) @
           [\<lparr>log_timestamp = now 0, log_type = ''api'', log_message = msg,
             log_lineNo = None\<rparr>]) \<and>
   (let s' = evaluateLines_resume now typeError lines k (FetchRejected m) s
    in overlay s' = overlay s \<and> latestResults s' = latestResults s \<and> pages s' = pages s \<and>
       statusText s' = ''Evaluation failed'' \<and>
       errorLogs s' =
         (if length (errorLogs s) < 100 then errorLogs s else tl (errorLogs s)) @
           [\<lparr>log_timestamp = now 0, log_type = ''network'',
             log_message = ''Network error: '' @ m, log_lineNo = None\<rparr>])"
proof -
  have logs: "errorLogs (logError t msg ty l st) =
      (if length (errorLogs st) < 100 then errorLogs st else tl (errorLogs st)) @
        [\<lparr>log_timestamp = t, log_type = ty, log_message = msg, log_lineNo = l\<rparr>]"
    for t msg ty l st
    by (cases "errorLogs st") (auto simp: logError_def Let_def)
  show ?thesis
    by (simp add: evaluateLines_resume_def evaluateLines_catch_def Let_def logs logError_keeps)
qed

text \<open>
  C9, evaluated on the code. The response to the first request has a non-success status
  and a body that is not JSON (an HTML error page): \<open>response.json()\<close> is awaited before
  \<open>response.ok\<close> is tested, so its rejection is caught as if the transport had failed.
  The one entry logged is tagged \<open>network\<close> and reads \<open>Network error: \<dots>\<close>; the
  \<open>else\<close> branch, which tags the replies that are not \<open>ok\<close> as \<open>api\<close>, is not reached.
\<close>

theorem evaluateLines_unparsed_failure_tagged_network:
  "map log_type (errorLogs (evaluateLines_resume fixed_clock [] [''x = 1''] 0
      (JsonRejected False ''Unexpected token <'') one_page)) = [''network''] \<and>
   map log_message (errorLogs (evaluateLines_resume fixed_clock [] [''x = 1''] 0
      (JsonRejected False ''Unexpected token <'') one_page))
     = [''Network error: Unexpected token <''] \<and>
   statusText (evaluateLines_resume fixed_clock [] [''x = 1''] 0
      (JsonRejected False ''Unexpected token <'') one_page) = ''Evaluation failed''"
  by code_simp

text \<open>
  C4, evaluated on the code. \<open>Page2\<close> has never been evaluated, and its \<open>results\<close> is the
  empty array that \<open>createPage\<close> and \<open>saveCurrentPage\<close> gave it; the snapshot built
  while \<open>Main\<close> is active, and the request that \<open>runBtn\<close> sends, contain it all the same.
\<close>

theorem allPagesContext_unevaluated_page:
  "map page_name (pages never_evaluated) = [''Main'', ''Page2''] \<and>
   currentPageId never_evaluated = Some 0 \<and>
   allPagesContext never_evaluated = [(''Page2'', [])] \<and>
   req_context (last (requests (runAll never_evaluated))) = [(''Page2'', [])]"
  by code_simp

end
